theory Spec2Isabelle
  imports Main "HOL-Library.Sublist" "HOL-Library.AList"
begin

section \<open>Python values and exceptions\<close>

text \<open>
  The provider SDK hands back JSON-like values: dictionaries keyed by strings, lists,
  strings, numbers, timestamps and \<open>None\<close>. A dictionary is an association list in
  insertion order, read with \<open>map_of\<close>.
\<close>

datatype pyval =
    PNone
  | PBool bool
  | PInt int
  | PStr string
  | PDatetime string
  | PList "pyval list"
  | PDict "(string \<times> pyval) list"

text \<open>
  Exceptions carry the text that \<open>str(e)\<close> yields. \<open>ClientError\<close> and
  \<open>BotoCoreError\<close> are the SDK's two exception classes; \<open>KeyboardInterrupt\<close>
  stands for the exceptions that are not subclasses of \<open>Exception\<close>.
\<close>

datatype exn =
    ClientError string
  | BotoCoreError string
  | KeyError string
  | IndexError string
  | TypeError string
  | AttributeError string
  | ValueError string
  | KeyboardInterrupt

fun str_exn :: "exn \<Rightarrow> string" where
  "str_exn (ClientError m) = m"
| "str_exn (BotoCoreError m) = m"
| "str_exn (KeyError m) = m"
| "str_exn (IndexError m) = m"
| "str_exn (TypeError m) = m"
| "str_exn (AttributeError m) = m"
| "str_exn (ValueError m) = m"
| "str_exn KeyboardInterrupt = []"


text \<open>\<open>except ClientError\<close>.\<close>

fun is_ClientError :: "exn \<Rightarrow> bool" where
  "is_ClientError (ClientError m) = True"
| "is_ClientError e = False"

text \<open>\<open>except (ClientError, BotoCoreError)\<close>.\<close>

fun is_sdk_error :: "exn \<Rightarrow> bool" where
  "is_sdk_error (ClientError m) = True"
| "is_sdk_error (BotoCoreError m) = True"
| "is_sdk_error e = False"

text \<open>\<open>needle in hay\<close> on strings: a contiguous substring.\<close>

fun str_contains :: "string \<Rightarrow> string \<Rightarrow> bool" where
  "str_contains needle [] = (needle = [])"
| "str_contains needle (c # cs) = (prefix needle (c # cs) \<or> str_contains needle cs)"

definition quoted :: "string \<Rightarrow> string" where
  "quoted s = CHR 0x27 # s @ [CHR 0x27]"

fun type_name :: "pyval \<Rightarrow> string" where
  "type_name PNone = ''NoneType''"
| "type_name (PBool b) = ''bool''"
| "type_name (PInt i) = ''int''"
| "type_name (PStr s) = ''str''"
| "type_name (PDatetime d) = ''datetime.datetime''"
| "type_name (PList xs) = ''list''"
| "type_name (PDict kvs) = ''dict''"

fun dec_nat :: "nat \<Rightarrow> string" where
  "dec_nat n = (if n < 10 then [char_of (48 + n)] else dec_nat (n div 10) @ [char_of (48 + n mod 10)])"

definition dec_int :: "int \<Rightarrow> string" where
  "dec_int i = (if i < 0 then CHR ''-'' # dec_nat (nat (- i)) else dec_nat (nat i))"

text \<open>Truth value of a Python object, as \<open>if x\<close>, \<open>not x\<close> and \<open>x or y\<close> read it.\<close>

fun truthy :: "pyval \<Rightarrow> bool" where
  "truthy PNone = False"
| "truthy (PBool b) = b"
| "truthy (PInt i) = (i \<noteq> 0)"
| "truthy (PStr s) = (s \<noteq> [])"
| "truthy (PDatetime d) = True"
| "truthy (PList xs) = (xs \<noteq> [])"
| "truthy (PDict kvs) = (kvs \<noteq> [])"

definition py_or :: "pyval \<Rightarrow> pyval \<Rightarrow> pyval" where
  "py_or a b = (if truthy a then a else b)"

text \<open>
  \<open>d.get(k)\<close> before the default is applied: only a dictionary has the method.
\<close>

fun dict_lookup :: "pyval \<Rightarrow> string \<Rightarrow> exn + pyval option" where
  "dict_lookup (PDict kvs) k = Inr (map_of kvs k)"
| "dict_lookup v k =
     Inl (AttributeError (quoted (type_name v) @ '' object has no attribute '' @ quoted ''get''))"

text \<open>\<open>d.get(k, dflt)\<close>; \<open>d.get(k)\<close> is \<open>dict_get d k PNone\<close>.\<close>

definition dict_get :: "pyval \<Rightarrow> string \<Rightarrow> pyval \<Rightarrow> exn + pyval" where
  "dict_get d k dflt =
     (case dict_lookup d k of
        Inl e \<Rightarrow> Inl e
      | Inr None \<Rightarrow> Inr dflt
      | Inr (Some v) \<Rightarrow> Inr v)"

text \<open>\<open>d[k]\<close> with a string key.\<close>

fun subscript_key :: "pyval \<Rightarrow> string \<Rightarrow> exn + pyval" where
  "subscript_key (PDict kvs) k =
     (case map_of kvs k of None \<Rightarrow> Inl (KeyError (quoted k)) | Some v \<Rightarrow> Inr v)"
| "subscript_key (PList xs) k = Inl (TypeError ''list indices must be integers or slices, not str'')"
| "subscript_key (PStr s) k = Inl (TypeError ''string indices must be integers'')"
| "subscript_key v k = Inl (TypeError (quoted (type_name v) @ '' object is not subscriptable''))"

text \<open>
  The position that an integer index \<open>i\<close> names in a sequence of \<open>len\<close> items:
  \<open>i\<close> itself from the front, \<open>len + i\<close> for a negative \<open>i\<close>, none out of range.
\<close>

definition index_position :: "nat \<Rightarrow> int \<Rightarrow> nat option" where
  "index_position len i =
     (if 0 \<le> i \<and> i < int len then Some (nat i)
      else if i < 0 \<and> - int len \<le> i then Some (nat (int len + i))
      else None)"

text \<open>\<open>xs[i]\<close> with an integer index.\<close>

fun subscript_index :: "pyval \<Rightarrow> int \<Rightarrow> exn + pyval" where
  "subscript_index (PList xs) i =
     (case index_position (length xs) i of
        Some k \<Rightarrow> Inr (xs ! k)
      | None \<Rightarrow> Inl (IndexError ''list index out of range''))"
| "subscript_index (PStr s) i =
     (case index_position (length s) i of
        Some k \<Rightarrow> Inr (PStr [s ! k])
      | None \<Rightarrow> Inl (IndexError ''string index out of range''))"
| "subscript_index (PDict kvs) i = Inl (KeyError (dec_int i))"
| "subscript_index v i = Inl (TypeError (quoted (type_name v) @ '' object is not subscriptable''))"

text \<open>
  \<open>for x in v\<close>: the items a loop visits (the keys of a dictionary, which are distinct), or
  the \<open>TypeError\<close> of a value that is not iterable.
\<close>

fun iterate :: "pyval \<Rightarrow> exn + pyval list" where
  "iterate (PList xs) = Inr xs"
| "iterate (PDict kvs) = Inr (map (\<lambda>kv. PStr (fst kv)) kvs)"
| "iterate (PStr s) = Inr (map (\<lambda>c. PStr [c]) s)"
| "iterate v = Inl (TypeError (quoted (type_name v) @ '' object is not iterable''))"

section \<open>The provider client\<close>

text \<open>
  Every SDK call the code issues, with the keyword arguments it passes. A waiter's
  \<open>wait\<close> is one blocking call.
\<close>

datatype call =
    DescribeInstances
  | ListBuckets
  | GetBucketLocation pyval
  | DescribeDBInstances
  | ListFunctionsPages
  | GetCostAndUsage "(string \<times> pyval) list"
  | RunInstances "(string \<times> pyval) list"
  | TerminateInstances "string list"
  | StopInstances "string list"
  | DescribeStacks string
  | CreateStack string string "pyval list" "string list"
  | UpdateStack string string "pyval list" "string list"
  | WaitStackCreateComplete string
  | WaitStackUpdateComplete string

text \<open>
  The provider is a state machine outside the program: a call answers with a response or
  raises, and moves the provider to a new state.
\<close>

type_synonym 's client = "'s \<Rightarrow> call \<Rightarrow> (exn + pyval) \<times> 's"

text \<open>A client that also records, in order, every call it receives.\<close>

definition recording :: "'s client \<Rightarrow> ('s \<times> call list) client" where
  "recording P = (\<lambda>sl c. case P (fst sl) c of (r, s') \<Rightarrow> (r, (s', snd sl @ [c])))"

definition calls_of :: "'a \<times> ('s \<times> call list) \<Rightarrow> call list" where
  "calls_of r = snd (snd r)"

section \<open>Sequencing computations that may raise\<close>

definition ebind :: "exn + 'a \<Rightarrow> ('a \<Rightarrow> exn + 'b) \<Rightarrow> exn + 'b" where
  "ebind r f = (case r of Inl e \<Rightarrow> Inl e | Inr x \<Rightarrow> f x)"

text \<open>A comprehension or an appending loop whose body may raise: it stops at the first exception.\<close>

fun emap :: "('a \<Rightarrow> exn + 'b) \<Rightarrow> 'a list \<Rightarrow> exn + 'b list" where
  "emap f [] = Inr []"
| "emap f (x # xs) =
     (case f x of
        Inl e \<Rightarrow> Inl e
      | Inr y \<Rightarrow> (case emap f xs of Inl e \<Rightarrow> Inl e | Inr ys \<Rightarrow> Inr (y # ys)))"

section \<open>aws.py: the resource inventory reader\<close>





text \<open>
  The try block of \<open>list_s3_buckets\<close>: the region of one bucket. An SDK error of the
  lookup becomes \<open>unknown\<close>; a location constraint that is missing, null or empty
  becomes \<open>us-east-1\<close>.
\<close>

definition bucket_region :: "'s client \<Rightarrow> 's \<Rightarrow> pyval \<Rightarrow> (exn + pyval) \<times> 's" where
  "bucket_region s3 s name =
     (case s3 s (GetBucketLocation name) of
        (Inl e, s1) \<Rightarrow> if is_sdk_error e then (Inr (PStr ''unknown''), s1) else (Inl e, s1)
      | (Inr resp, s1) \<Rightarrow>
          (case dict_get resp ''LocationConstraint'' PNone of
             Inl e \<Rightarrow> if is_sdk_error e then (Inr (PStr ''unknown''), s1) else (Inl e, s1)
           | Inr lc \<Rightarrow> (Inr (py_or lc (PStr ''us-east-1'')), s1)))"

text \<open>The loop over the buckets: one lookup per bucket, one record appended per bucket.\<close>

fun bucket_records :: "'s client \<Rightarrow> 's \<Rightarrow> pyval list \<Rightarrow> (exn + pyval list) \<times> 's" where
  "bucket_records s3 s [] = (Inr [], s)"
| "bucket_records s3 s (b # bs) =
     (case dict_get b ''Name'' PNone of
        Inl e \<Rightarrow> (Inl e, s)
      | Inr name \<Rightarrow>
          (case bucket_region s3 s name of
             (Inl e, s1) \<Rightarrow> (Inl e, s1)
           | (Inr loc, s1) \<Rightarrow>
               (case dict_get b ''CreationDate'' PNone of
                  Inl e \<Rightarrow> (Inl e, s1)
                | Inr created \<Rightarrow>
                    (case bucket_records s3 s1 bs of
                       (Inl e, s2) \<Rightarrow> (Inl e, s2)
                     | (Inr rest, s2) \<Rightarrow>
                         (Inr (PDict [(''Name'', name), (''CreationDate'', created), (''Region'', loc)]
                               # rest), s2)))))"

definition list_s3_buckets :: "'s client \<Rightarrow> 's \<Rightarrow> (exn + pyval list) \<times> 's" where
  "list_s3_buckets s3 s =
     (case s3 s ListBuckets of
        (Inl e, s1) \<Rightarrow> (Inl e, s1)
      | (Inr resp, s1) \<Rightarrow>
          (case ebind (dict_get resp ''Buckets'' (PList [])) iterate of
             Inl e \<Rightarrow> (Inl e, s1)
           | Inr buckets \<Rightarrow> bucket_records s3 s1 buckets))"






section \<open>aws.py: the billing reader\<close>

record date =
  year :: nat
  month :: nat
  day :: nat

definition zfill :: "nat \<Rightarrow> string \<Rightarrow> string" where
  "zfill w s = replicate (w - length s) CHR ''0'' @ s"

text \<open>\<open>date.isoformat()\<close>: \<open>YYYY-MM-DD\<close>.\<close>

definition isoformat :: "date \<Rightarrow> string" where
  "isoformat d =
     zfill 4 (dec_nat (year d)) @ ''-'' @ zfill 2 (dec_nat (month d)) @ ''-'' @ zfill 2 (dec_nat (day d))"

definition month_window :: "date \<Rightarrow> pyval" where
  "month_window today =
     PDict [(''Start'', PStr (isoformat (today\<lparr>day := 1\<rparr>))), (''End'', PStr (isoformat today))]"

definition get_month_cost :: "'s client \<Rightarrow> 's \<Rightarrow> date \<Rightarrow> (exn + pyval \<times> pyval) \<times> 's" where
  "get_month_cost ce s today =
     (case ce s (GetCostAndUsage
                  [(''TimePeriod'', month_window today),
                   (''Granularity'', PStr ''MONTHLY''),
                   (''Metrics'', PList [PStr ''UnblendedCost''])]) of
        (Inl e, s1) \<Rightarrow> (Inl e, s1)
      | (Inr resp, s1) \<Rightarrow>
          (ebind (dict_get resp ''ResultsByTime'' (PList [])) (\<lambda>results.
             if \<not> truthy results then Inr (PStr ''0.0'', PStr ''USD'')
             else
               ebind (subscript_index results 0) (\<lambda>first.
               ebind (dict_get first ''Total'' (PDict [])) (\<lambda>tot.
               ebind (dict_get tot ''UnblendedCost'' (PDict [])) (\<lambda>total.
               ebind (dict_get total ''Amount'' (PStr ''0.0'')) (\<lambda>amount.
               ebind (dict_get total ''Unit'' (PStr ''USD'')) (\<lambda>unit.
                 Inr (amount, unit))))))), s1))"

text \<open>
  One usage row \<open>(service, amount, unit)\<close>. The builtin \<open>float\<close> is a parameter
  \<open>to_float\<close> into a linearly ordered type of amounts (it raises \<open>ValueError\<close> on text
  that is no number); \<open>float(0.0)\<close>, the default of a missing amount, is \<open>0\<close>. The
  source walks \<open>Metrics\<close> and \<open>UsageQuantity\<close> a second time for the unit; the walk is
  pure, so the unit is read here from the dictionary reached the first time.
\<close>

definition usage_row ::
  "(pyval \<Rightarrow> exn + 'n) \<Rightarrow> pyval \<Rightarrow> exn + (pyval \<times> 'n::{linorder, zero} \<times> pyval)" where
  "usage_row to_float g =
     ebind (dict_get g ''Keys'' (PList [PStr []])) (\<lambda>keys.
     ebind (subscript_index keys 0) (\<lambda>service.
     ebind (dict_get g ''Metrics'' (PDict [])) (\<lambda>m.
     ebind (dict_get m ''UsageQuantity'' (PDict [])) (\<lambda>uq.
     ebind (dict_lookup uq ''Amount'') (\<lambda>a.
     ebind (case a of None \<Rightarrow> Inr 0 | Some v \<Rightarrow> to_float v) (\<lambda>amount.
     ebind (dict_get uq ''Unit'' (PStr [])) (\<lambda>unit.
       Inr (service, amount, unit))))))))"

text \<open>
  \<open>rows.sort(key=..., reverse=True)\<close>: the list is reversed, sorted stably in ascending
  order of the key and reversed again, so rows with equal keys keep their order.
\<close>

definition sort_reverse :: "('a \<Rightarrow> 'k::linorder) \<Rightarrow> 'a list \<Rightarrow> 'a list" where
  "sort_reverse f xs = rev (sort_key f (rev xs))"

text \<open>The slice \<open>xs[:n]\<close>: a negative bound counts from the end of the list.\<close>

definition slice_to :: "int \<Rightarrow> 'a list \<Rightarrow> 'a list" where
  "slice_to n xs = (if n < 0 then take (nat (int (length xs) + n)) xs else take (nat n) xs)"

definition get_top_usage ::
  "(pyval \<Rightarrow> exn + 'n) \<Rightarrow> 's client \<Rightarrow> 's \<Rightarrow> date \<Rightarrow> int
     \<Rightarrow> (exn + (pyval \<times> 'n::{linorder, zero} \<times> pyval) list) \<times> 's" where
  "get_top_usage to_float ce s today top_n =
     (case ce s (GetCostAndUsage
                  [(''TimePeriod'', month_window today),
                   (''Granularity'', PStr ''MONTHLY''),
                   (''Metrics'', PList [PStr ''UsageQuantity'']),
                   (''GroupBy'', PList [PDict [(''Type'', PStr ''DIMENSION''), (''Key'', PStr ''SERVICE'')]])]) of
        (Inl e, s1) \<Rightarrow> (Inl e, s1)
      | (Inr resp, s1) \<Rightarrow>
          (ebind (dict_get resp ''ResultsByTime'' (PList [PDict []])) (\<lambda>results.
           ebind (subscript_index results 0) (\<lambda>first.
           ebind (dict_get first ''Groups'' (PList [])) (\<lambda>groups.
           ebind (iterate groups) (\<lambda>gs.
           ebind (emap (usage_row to_float) gs) (\<lambda>rows.
             Inr (slice_to top_n (sort_reverse (\<lambda>x. fst (snd x)) rows))))))), s1))"

section \<open>aws.py: the resource lifecycle controller\<close>

text \<open>An optional argument counts as given when it is neither \<open>None\<close> nor empty.\<close>

definition given :: "'a list option \<Rightarrow> bool" where
  "given x = (case x of None \<Rightarrow> False | Some v \<Rightarrow> v \<noteq> [])"

text \<open>
  The keyword arguments of \<open>run_instances\<close>: the four required entries, then one entry
  for each optional argument that is truthy (neither \<open>None\<close> nor empty).
\<close>

definition run_instances_params ::
  "string \<Rightarrow> string \<Rightarrow> string option \<Rightarrow> string list option \<Rightarrow> string option \<Rightarrow> int
     \<Rightarrow> string option \<Rightarrow> (string \<times> pyval) list" where
  "run_instances_params ami_id instance_type key_name security_group_ids subnet_id count name_tag =
     (let params = [(''ImageId'', PStr ami_id), (''InstanceType'', PStr instance_type),
                    (''MinCount'', PInt count), (''MaxCount'', PInt count)];
          params = (case key_name of
                      Some k \<Rightarrow> if k \<noteq> [] then AList.update ''KeyName'' (PStr k) params else params
                    | None \<Rightarrow> params);
          params = (case security_group_ids of
                      Some g \<Rightarrow> if g \<noteq> [] then AList.update ''SecurityGroupIds'' (PList (map PStr g)) params
                                else params
                    | None \<Rightarrow> params);
          params = (case subnet_id of
                      Some n \<Rightarrow> if n \<noteq> [] then AList.update ''SubnetId'' (PStr n) params else params
                    | None \<Rightarrow> params);
          params = (case name_tag of
                      Some t \<Rightarrow>
                        if t \<noteq> [] then
                          AList.update ''TagSpecifications''
                            (PList [PDict [(''ResourceType'', PStr ''instance''),
                                           (''Tags'', PList [PDict [(''Key'', PStr ''Name''), (''Value'', PStr t)]])]])
                            params
                        else params
                    | None \<Rightarrow> params)
      in params)"

definition allocate_ec2_instance ::
  "'s client \<Rightarrow> 's \<Rightarrow> string \<Rightarrow> string \<Rightarrow> string option \<Rightarrow> string list option \<Rightarrow> string option
     \<Rightarrow> int \<Rightarrow> string option \<Rightarrow> (exn + pyval list) \<times> 's" where
  "allocate_ec2_instance ec2 s ami_id instance_type key_name security_group_ids subnet_id count name_tag =
     (case ec2 s (RunInstances
                   (run_instances_params ami_id instance_type key_name security_group_ids subnet_id
                      count name_tag)) of
        (Inl e, s1) \<Rightarrow> (Inl e, s1)
      | (Inr resp, s1) \<Rightarrow>
          (ebind (dict_get resp ''Instances'' (PList [])) (\<lambda>insts.
           ebind (iterate insts) (emap (\<lambda>i. subscript_key i ''InstanceId''))), s1))"

definition deallocate_ec2_instances ::
  "'s client \<Rightarrow> 's \<Rightarrow> string list \<Rightarrow> bool \<Rightarrow> (exn + pyval list) \<times> 's" where
  "deallocate_ec2_instances ec2 s instance_ids terminate =
     (if terminate then
        (case ec2 s (TerminateInstances instance_ids) of
           (Inl e, s1) \<Rightarrow> (Inl e, s1)
         | (Inr resp, s1) \<Rightarrow>
             (ebind (dict_get resp ''TerminatingInstances'' (PList [])) (\<lambda>xs.
              ebind (iterate xs) (emap (\<lambda>i. dict_get i ''InstanceId'' PNone))), s1))
      else
        (case ec2 s (StopInstances instance_ids) of
           (Inl e, s1) \<Rightarrow> (Inl e, s1)
         | (Inr resp, s1) \<Rightarrow>
             (ebind (dict_get resp ''StoppingInstances'' (PList [])) (\<lambda>xs.
              ebind (iterate xs) (emap (\<lambda>i. dict_get i ''InstanceId'' PNone))), s1)))"

section \<open>aws.py: the stack reconciler\<close>

definition param_list :: "(string \<times> string) list \<Rightarrow> pyval list" where
  "param_list parameters =
     map (\<lambda>kv. PDict [(''ParameterKey'', PStr (fst kv)), (''ParameterValue'', PStr (snd kv))]) parameters"

datatype action = Create | Update

text \<open>
  The existence probe: \<open>describe_stacks\<close> succeeds, or raises a \<open>ClientError\<close> whose
  text contains \<open>does not exist\<close>, or raises anything else, which is raised again.
\<close>

definition probe_stack :: "'s client \<Rightarrow> 's \<Rightarrow> string \<Rightarrow> (exn + action) \<times> 's" where
  "probe_stack cf s stack_name =
     (case cf s (DescribeStacks stack_name) of
        (Inr d, s1) \<Rightarrow> (Inr Update, s1)
      | (Inl e, s1) \<Rightarrow>
          if is_ClientError e then
            (if str_contains ''does not exist'' (str_exn e) then (Inr Create, s1) else (Inl e, s1))
          else (Inl e, s1))"

definition create_branch ::
  "'s client \<Rightarrow> 's \<Rightarrow> string \<Rightarrow> string \<Rightarrow> pyval list \<Rightarrow> string list \<Rightarrow> (exn + pyval) \<times> 's" where
  "create_branch cf s stack_name template_body params capabilities =
     (case cf s (CreateStack stack_name template_body params capabilities) of
        (Inl e, s1) \<Rightarrow> (Inl e, s1)
      | (Inr resp, s1) \<Rightarrow>
          (case cf s1 (WaitStackCreateComplete stack_name) of
             (Inl e, s2) \<Rightarrow> (Inl e, s2)
           | (Inr w, s2) \<Rightarrow> (subscript_key resp ''StackId'', s2)))"

text \<open>\<open>desc["Stacks"][0]["StackId"]\<close>.\<close>

definition described_stack_id :: "pyval \<Rightarrow> exn + pyval" where
  "described_stack_id desc =
     ebind (subscript_key desc ''Stacks'') (\<lambda>stacks.
     ebind (subscript_index stacks 0) (\<lambda>stack.
       subscript_key stack ''StackId''))"

text \<open>
  The handler \<open>except ClientError as e\<close> of the update branch: on the text
  \<open>No updates are to be performed\<close> the stack is described again and its identifier
  returned; any other \<open>ClientError\<close> is raised again.
\<close>

definition no_updates_handler :: "'s client \<Rightarrow> 's \<Rightarrow> string \<Rightarrow> exn \<Rightarrow> (exn + pyval) \<times> 's" where
  "no_updates_handler cf s stack_name e =
     (if str_contains ''No updates are to be performed'' (str_exn e) then
        (case cf s (DescribeStacks stack_name) of
           (Inl e', s1) \<Rightarrow> (Inl e', s1)
         | (Inr desc, s1) \<Rightarrow> (described_stack_id desc, s1))
      else (Inl e, s))"

definition update_branch ::
  "'s client \<Rightarrow> 's \<Rightarrow> string \<Rightarrow> string \<Rightarrow> pyval list \<Rightarrow> string list \<Rightarrow> (exn + pyval) \<times> 's" where
  "update_branch cf s stack_name template_body params capabilities =
     (case cf s (UpdateStack stack_name template_body params capabilities) of
        (Inl e, s1) \<Rightarrow>
          if is_ClientError e then no_updates_handler cf s1 stack_name e else (Inl e, s1)
      | (Inr resp, s1) \<Rightarrow>
          (case cf s1 (WaitStackUpdateComplete stack_name) of
             (Inl e, s2) \<Rightarrow>
               if is_ClientError e then no_updates_handler cf s2 stack_name e else (Inl e, s2)
           | (Inr w, s2) \<Rightarrow>
               (case subscript_key resp ''StackId'' of
                  Inl e \<Rightarrow> if is_ClientError e then no_updates_handler cf s2 stack_name e else (Inl e, s2)
                | Inr sid \<Rightarrow> (Inr sid, s2))))"

text \<open>
  \<open>ensure_stack\<close>. The parameter mapping is a dictionary in insertion order;
  \<open>capabilities or []\<close> is the list itself.
\<close>

definition ensure_stack ::
  "'s client \<Rightarrow> 's \<Rightarrow> string \<Rightarrow> string \<Rightarrow> (string \<times> string) list \<Rightarrow> string list
     \<Rightarrow> (exn + pyval) \<times> 's" where
  "ensure_stack cf s stack_name template_body parameters capabilities =
     (case probe_stack cf s stack_name of
        (Inl e, s1) \<Rightarrow> (Inl e, s1)
      | (Inr Create, s1) \<Rightarrow>
          create_branch cf s1 stack_name template_body (param_list parameters) capabilities
      | (Inr Update, s1) \<Rightarrow>
          update_branch cf s1 stack_name template_body (param_list parameters) capabilities)"

section \<open>render.py and cli.py: the commands\<close>

text \<open>What a command prints, in order: one event per call of a \<open>print_\<close> function.\<close>

datatype out =
    PrintHeader string string
  | PrintTable string "(string \<times> string option) list" "pyval list list" string
  | PrintInfo string
  | PrintWarn string
  | PrintError string




























text \<open>
  \<open>s.split(",")\<close> and \<open>s.strip()\<close>. A character is a code point below 256; the white
  space among these is U+0009 to U+000D, U+001C to U+0020, U+0085 and U+00A0.
\<close>

fun split_on :: "char \<Rightarrow> string \<Rightarrow> string list" where
  "split_on c [] = [[]]"
| "split_on c (x # xs) =
     (if x = c then [] # split_on c xs
      else (case split_on c xs of [] \<Rightarrow> [[x]] | w # ws \<Rightarrow> (x # w) # ws))"

definition is_space :: "char \<Rightarrow> bool" where
  "is_space c =
     (let n = of_char c :: nat
      in (9 \<le> n \<and> n \<le> 13) \<or> (28 \<le> n \<and> n \<le> 32) \<or> n = 133 \<or> n = 160)"

definition strip :: "string \<Rightarrow> string" where
  "strip s = rev (dropWhile is_space (rev (dropWhile is_space s)))"

text \<open>
  \<open>sep.join(xs)\<close>: every item must be a string; the \<open>TypeError\<close> names the position
  and the type of the first item that is none.
\<close>

fun first_non_str :: "nat \<Rightarrow> pyval list \<Rightarrow> (nat \<times> pyval) option" where
  "first_non_str i [] = None"
| "first_non_str i (PStr a # xs) = first_non_str (Suc i) xs"
| "first_non_str i (v # xs) = Some (i, v)"

fun str_of :: "pyval \<Rightarrow> string" where
  "str_of (PStr a) = a"
| "str_of v = []"

fun join_all :: "string \<Rightarrow> string list \<Rightarrow> string" where
  "join_all sep [] = []"
| "join_all sep [a] = a"
| "join_all sep (a # b # xs) = a @ sep @ join_all sep (b # xs)"

definition join_strs :: "string \<Rightarrow> pyval list \<Rightarrow> exn + string" where
  "join_strs sep xs =
     (case first_non_str 0 xs of
        Some iv \<Rightarrow>
          Inl (TypeError (''sequence item '' @ dec_nat (fst iv) @ '': expected str instance, ''
                          @ type_name (snd iv) @ '' found''))
      | None \<Rightarrow> Inr (join_all sep (map str_of xs)))"

text \<open>The command \<open>deallocate ec2\<close>: \<open>except (ClientError, BotoCoreError)\<close> prints the error.\<close>

definition deallocate_ec2 :: "'s client \<Rightarrow> 's \<Rightarrow> string \<Rightarrow> bool \<Rightarrow> (exn + unit) \<times> 's \<times> out list" where
  "deallocate_ec2 aws s instance_ids stop =
     (let ids = filter (\<lambda>x. x \<noteq> []) (map strip (split_on CHR '','' instance_ids)) in
      case deallocate_ec2_instances aws s ids (\<not> stop) of
        (Inl e, s1) \<Rightarrow>
          if is_sdk_error e then (Inr (), s1, [PrintError (str_exn e)]) else (Inl e, s1, [])
      | (Inr acted, s1) \<Rightarrow>
          (case join_strs '', '' acted of
             Inl e \<Rightarrow> if is_sdk_error e then (Inr (), s1, [PrintError (str_exn e)]) else (Inl e, s1, [])
           | Inr joined \<Rightarrow>
               (Inr (), s1,
                [PrintInfo (''Instances '' @ (if stop then ''stopped'' else ''terminated'') @ '': ''
                            @ joined)])))"

section \<open>Stand-in providers\<close>

text \<open>A scripted client: it answers the calls with the queued responses, one after the other.\<close>

definition replay :: "(exn + pyval) list client" where
  "replay q c =
     (case q of
        [] \<Rightarrow> (Inl (BotoCoreError ''no response queued''), [])
      | r # rs \<Rightarrow> (r, rs))"

text \<open>
  An in-memory stack service: it keeps, for each stack name, the stack's identifier and the
  template, parameters and capabilities it was last given.
\<close>

type_synonym stack_config = "string \<times> pyval list \<times> string list"

type_synonym stacks = "(string \<times> pyval \<times> stack_config) list"

definition stack_arn :: "string \<Rightarrow> pyval" where
  "stack_arn n = PStr (''arn:aws:cloudformation:stack/'' @ n)"

fun memory_stacks :: "stacks \<Rightarrow> call \<Rightarrow> (exn + pyval) \<times> stacks" where
  "memory_stacks st (DescribeStacks n) =
     (case map_of st n of
        None \<Rightarrow>
          (Inl (ClientError (''An error occurred (ValidationError) when calling the DescribeStacks operation: Stack with id ''
                             @ n @ '' does not exist'')), st)
      | Some x \<Rightarrow>
          (Inr (PDict [(''Stacks'', PList [PDict [(''StackName'', PStr n), (''StackId'', fst x)]])]), st))"
| "memory_stacks st (CreateStack n body ps caps) =
     (case map_of st n of
        None \<Rightarrow> (Inr (PDict [(''StackId'', stack_arn n)]), (n, stack_arn n, body, ps, caps) # st)
      | Some x \<Rightarrow>
          (Inl (ClientError (''An error occurred (AlreadyExistsException) when calling the CreateStack operation: Stack [''
                             @ n @ ''] already exists'')), st))"
| "memory_stacks st (UpdateStack n body ps caps) =
     (case map_of st n of
        None \<Rightarrow>
          (Inl (ClientError (''An error occurred (ValidationError) when calling the UpdateStack operation: Stack [''
                             @ n @ ''] does not exist'')), st)
      | Some x \<Rightarrow>
          if snd x = (body, ps, caps) then
            (Inl (ClientError ''An error occurred (ValidationError) when calling the UpdateStack operation: No updates are to be performed.''), st)
          else (Inr (PDict [(''StackId'', fst x)]), (n, fst x, body, ps, caps) # st))"
| "memory_stacks st c = (Inr (PDict []), st)"

text \<open>
  A stand-in for the builtin \<open>float\<close> on the amounts of an example, in whole units: the
  number that a table gives for the text, \<open>ValueError\<close> for a text that is not in it.
\<close>

definition table_float :: "(string \<times> int) list \<Rightarrow> pyval \<Rightarrow> exn + int" where
  "table_float tab v =
     (case v of
        PStr s \<Rightarrow>
          (case map_of tab s of
             Some x \<Rightarrow> Inr x
           | None \<Rightarrow> Inl (ValueError (''could not convert string to float: '' @ quoted s)))
      | PInt i \<Rightarrow> Inr i
      | _ \<Rightarrow> Inl (TypeError ''float() argument must be a string or a real number''))"

text \<open>One group of a usage response: a service with the amount and unit of its usage.\<close>

definition usage_group :: "string \<Rightarrow> string \<Rightarrow> string \<Rightarrow> pyval" where
  "usage_group service amount unit =
     PDict [(''Keys'', PList [PStr service]),
            (''Metrics'', PDict [(''UsageQuantity'', PDict [(''Amount'', PStr amount), (''Unit'', PStr unit)])])]"

text \<open>One bucket of a \<open>list_buckets\<close> response, and the record that the listing makes of it.\<close>

definition bucket_entry :: "string \<Rightarrow> string \<Rightarrow> pyval" where
  "bucket_entry name created = PDict [(''Name'', PStr name), (''CreationDate'', PDatetime created)]"

definition bucket_row :: "string \<Rightarrow> string \<Rightarrow> string \<Rightarrow> pyval" where
  "bucket_row name created region =
     PDict [(''Name'', PStr name), (''CreationDate'', PDatetime created), (''Region'', PStr region)]"



section \<open>What the reconciler expects of the provider\<close>

definition absent_error :: "exn \<Rightarrow> bool" where
  "absent_error e = (is_ClientError e \<and> str_contains ''does not exist'' (str_exn e))"

definition no_updates_error :: "exn \<Rightarrow> bool" where
  "no_updates_error e = (is_ClientError e \<and> str_contains ''No updates are to be performed'' (str_exn e))"

text \<open>
  A provider whose stacks change only through the calls made here. \<open>view s n\<close> is the
  identifier and the configuration of stack \<open>n\<close> in state \<open>s\<close>, if it exists.
  \<^item> \<open>describe_stacks\<close> changes nothing; it reports the identifier of a stack that exists,
    and raises the \<open>does not exist\<close> error for one that does not.
  \<^item> A \<open>create_stack\<close> that answers with an identifier has recorded the stack under it.
  \<^item> \<open>update_stack\<close> with the configuration the stack already has raises the
    \<open>No updates are to be performed\<close> error, and only then; when it raises, nothing
    changes; when it answers, the identifier is the stack's and the configuration is recorded.
  \<^item> A waiter that returns changes nothing; one that fails raises the SDK's waiter error,
    which is no \<open>ClientError\<close>.
\<close>

definition stable_provider ::
  "'s client \<Rightarrow> ('s \<Rightarrow> string \<Rightarrow> (pyval \<times> stack_config) option) \<Rightarrow> bool" where
  "stable_provider P view =
     (\<forall>s n body ps caps.
        (case P s (DescribeStacks n) of
           (r, s') \<Rightarrow>
             view s' = view s \<and>
             (case view s n of
                None \<Rightarrow> (case r of Inl e \<Rightarrow> absent_error e | Inr d \<Rightarrow> False)
              | Some x \<Rightarrow> (case r of Inl e \<Rightarrow> False | Inr d \<Rightarrow> described_stack_id d = Inr (fst x)))) \<and>
        (case P s (CreateStack n body ps caps) of
           (r, s') \<Rightarrow>
             (case r of
                Inl e \<Rightarrow> True
              | Inr resp \<Rightarrow>
                  (case subscript_key resp ''StackId'' of
                     Inl e \<Rightarrow> True
                   | Inr sid \<Rightarrow> view s' n = Some (sid, body, ps, caps)))) \<and>
        (case P s (WaitStackCreateComplete n) of
           (r, s') \<Rightarrow> (case r of Inl e \<Rightarrow> \<not> is_ClientError e | Inr w \<Rightarrow> view s' = view s)) \<and>
        (case P s (UpdateStack n body ps caps) of
           (r, s') \<Rightarrow>
             (case view s n of
                None \<Rightarrow> True
              | Some x \<Rightarrow>
                  (case r of
                     Inl e \<Rightarrow> view s' = view s \<and> (no_updates_error e = (snd x = (body, ps, caps)))
                   | Inr resp \<Rightarrow>
                       snd x \<noteq> (body, ps, caps) \<and> subscript_key resp ''StackId'' = Inr (fst x) \<and>
                       view s' n = Some (fst x, body, ps, caps)))) \<and>
        (case P s (WaitStackUpdateComplete n) of
           (r, s') \<Rightarrow> (case r of Inl e \<Rightarrow> \<not> is_ClientError e | Inr w \<Rightarrow> view s' = view s)))"

section \<open>The recording client and the reconciler's branches\<close>

lemma recording_apply:
  "recording P (s, l) c = (fst (P s c), (snd (P s c), l @ [c]))"
  by (simp add: recording_def split: prod.splits)

lemma str_contains_sublist: "str_contains needle hay = sublist needle hay"
  by (induction hay) (simp_all add: sublist_Cons_right)

lemma subscript_key_not_ClientError: "subscript_key v k = Inl e \<Longrightarrow> \<not> is_ClientError e"
  by (cases v) (auto split: option.splits)

lemma create_branch_recording:
  "create_branch (recording cf) (s, l) n b p c =
     (fst (create_branch cf s n b p c),
      (snd (create_branch cf s n b p c),
       l @ CreateStack n b p c #
         (case fst (cf s (CreateStack n b p c)) of Inl e \<Rightarrow> [] | Inr r \<Rightarrow> [WaitStackCreateComplete n])))"
  by (simp add: create_branch_def recording_apply split: prod.splits sum.splits)

lemma no_updates_handler_recording:
  "no_updates_handler (recording cf) (s, l) n e =
     (fst (no_updates_handler cf s n e),
      (snd (no_updates_handler cf s n e),
       l @ (if str_contains ''No updates are to be performed'' (str_exn e) then [DescribeStacks n] else [])))"
  by (simp add: no_updates_handler_def recording_apply split: prod.splits sum.splits)

lemma update_branch_recording:
  "\<exists>rest. update_branch (recording cf) (s, l) n b p c =
     (fst (update_branch cf s n b p c),
      (snd (update_branch cf s n b p c), l @ UpdateStack n b p c # rest)) \<and>
     set rest \<subseteq> {WaitStackUpdateComplete n, DescribeStacks n}"
  by (auto simp add: update_branch_def recording_apply no_updates_handler_recording split: prod.splits sum.splits)


lemma absent_error_ClientError [simp]:
  "absent_error (ClientError m) = str_contains ''does not exist'' m"
  by (simp add: absent_error_def)

lemma no_updates_error_ClientError [simp]:
  "no_updates_error (ClientError m) = str_contains ''No updates are to be performed'' m"
  by (simp add: no_updates_error_def)

lemma probe_stack_recording:
  "probe_stack (recording cf) (s, l) n =
     (fst (probe_stack cf s n), (snd (probe_stack cf s n), l @ [DescribeStacks n]))"
  by (simp add: probe_stack_def recording_apply split: prod.splits sum.splits)

lemma probe_stack_cases:
  "probe_stack cf s n =
     (case fst (cf s (DescribeStacks n)) of
        Inr d \<Rightarrow> Inr Update
      | Inl e \<Rightarrow> if absent_error e then Inr Create else Inl e,
      snd (cf s (DescribeStacks n)))"
  by (auto simp add: probe_stack_def absent_error_def split: prod.splits sum.splits)

subsection \<open>The existence probe\<close>

text \<open>
  C1. For every stack name, the outcome of \<open>describe_stacks\<close> decides the branch of
  \<open>ensure_stack\<close>. If it raises a \<open>ClientError\<close> whose text contains
  \<open>does not exist\<close>, the reconciler continues with the create branch: its second call
  is \<open>create_stack\<close> and it never calls \<open>update_stack\<close>. If it raises any other
  exception (one of another class, or a \<open>ClientError\<close> without that text), the
  exception is the result, unchanged, and no further call is made. If it answers, the
  reconciler continues with the update branch: its second call is \<open>update_stack\<close> and
  it never calls \<open>create_stack\<close>.
\<close>

theorem ensure_stack_probe:
  fixes cf :: "'s client"
  shows
  "(cf s (DescribeStacks n) = (Inl (ClientError m), t) \<and> str_contains ''does not exist'' m \<longrightarrow>
      ensure_stack cf s n body ps caps = create_branch cf t n body (param_list ps) caps \<and>
      take 2 (calls_of (ensure_stack (recording cf) (s, []) n body ps caps)) =
        [DescribeStacks n, CreateStack n body (param_list ps) caps] \<and>
      set (calls_of (ensure_stack (recording cf) (s, []) n body ps caps)) \<subseteq>
        {DescribeStacks n, CreateStack n body (param_list ps) caps, WaitStackCreateComplete n}) \<and>
   (cf s (DescribeStacks n) = (Inl e, t) \<and> \<not> absent_error e \<longrightarrow>
      ensure_stack cf s n body ps caps = (Inl e, t) \<and>
      calls_of (ensure_stack (recording cf) (s, []) n body ps caps) = [DescribeStacks n]) \<and>
   (cf s (DescribeStacks n) = (Inr d, t) \<longrightarrow>
      ensure_stack cf s n body ps caps = update_branch cf t n body (param_list ps) caps \<and>
      take 2 (calls_of (ensure_stack (recording cf) (s, []) n body ps caps)) =
        [DescribeStacks n, UpdateStack n body (param_list ps) caps] \<and>
      set (calls_of (ensure_stack (recording cf) (s, []) n body ps caps)) \<subseteq>
        {DescribeStacks n, UpdateStack n body (param_list ps) caps, WaitStackUpdateComplete n})"
proof (intro conjI impI)
  assume h: "cf s (DescribeStacks n) = (Inl (ClientError m), t) \<and> str_contains ''does not exist'' m"
  then have p: "probe_stack cf s n = (Inr Create, t)"
    by (simp add: probe_stack_cases)
  show "ensure_stack cf s n body ps caps = create_branch cf t n body (param_list ps) caps"
    by (simp add: ensure_stack_def p)
  have c: "calls_of (ensure_stack (recording cf) (s, []) n body ps caps) =
      DescribeStacks n # CreateStack n body (param_list ps) caps #
        (case fst (cf t (CreateStack n body (param_list ps) caps)) of
           Inl e \<Rightarrow> [] | Inr r \<Rightarrow> [WaitStackCreateComplete n])"
    by (simp add: ensure_stack_def probe_stack_recording p create_branch_recording calls_of_def)
  show "take 2 (calls_of (ensure_stack (recording cf) (s, []) n body ps caps)) =
        [DescribeStacks n, CreateStack n body (param_list ps) caps]"
    by (simp add: c)
  show "set (calls_of (ensure_stack (recording cf) (s, []) n body ps caps)) \<subseteq>
        {DescribeStacks n, CreateStack n body (param_list ps) caps, WaitStackCreateComplete n}"
    by (auto simp add: c split: sum.splits)
next
  assume h: "cf s (DescribeStacks n) = (Inl e, t) \<and> \<not> absent_error e"
  then have p: "probe_stack cf s n = (Inl e, t)"
    by (simp add: probe_stack_cases)
  show "ensure_stack cf s n body ps caps = (Inl e, t)"
    by (simp add: ensure_stack_def p)
  show "calls_of (ensure_stack (recording cf) (s, []) n body ps caps) = [DescribeStacks n]"
    by (simp add: ensure_stack_def probe_stack_recording p calls_of_def)
next
  assume h: "cf s (DescribeStacks n) = (Inr d, t)"
  then have p: "probe_stack cf s n = (Inr Update, t)"
    by (simp add: probe_stack_cases)
  show "ensure_stack cf s n body ps caps = update_branch cf t n body (param_list ps) caps"
    by (simp add: ensure_stack_def p)
  obtain rest where r: "update_branch (recording cf) (t, [DescribeStacks n]) n body (param_list ps) caps =
     (fst (update_branch cf t n body (param_list ps) caps),
      (snd (update_branch cf t n body (param_list ps) caps),
       [DescribeStacks n] @ UpdateStack n body (param_list ps) caps # rest))"
    and s: "set rest \<subseteq> {WaitStackUpdateComplete n, DescribeStacks n}"
    using update_branch_recording [of cf t "[DescribeStacks n]" n body "param_list ps" caps] by blast
  have c: "calls_of (ensure_stack (recording cf) (s, []) n body ps caps) =
      DescribeStacks n # UpdateStack n body (param_list ps) caps # rest"
    by (simp add: ensure_stack_def probe_stack_recording p r calls_of_def)
  show "take 2 (calls_of (ensure_stack (recording cf) (s, []) n body ps caps)) =
        [DescribeStacks n, UpdateStack n body (param_list ps) caps]"
    by (simp add: c)
  show "set (calls_of (ensure_stack (recording cf) (s, []) n body ps caps)) \<subseteq>
        {DescribeStacks n, UpdateStack n body (param_list ps) caps, WaitStackUpdateComplete n}"
    using s by (auto simp add: c)
qed

theorem ensure_stack_probe_witness:
  "ensure_stack replay
     [Inl (ClientError ''An error occurred (ValidationError) when calling the DescribeStacks operation: Stack with id web does not exist''),
      Inr (PDict [(''StackId'', PStr ''arn:web'')]), Inr PNone]
     ''web'' ''Resources: {}'' [(''Env'', ''prod'')] [''CAPABILITY_IAM'']
     = (Inr (PStr ''arn:web''), []) \<and>
   ensure_stack replay
     [Inl (BotoCoreError ''Error loading SSO Token: Token for web does not exist'')]
     ''web'' ''Resources: {}'' [(''Env'', ''prod'')] [''CAPABILITY_IAM'']
     = (Inl (BotoCoreError ''Error loading SSO Token: Token for web does not exist''), []) \<and>
   ensure_stack replay
     [Inr (PDict [(''Stacks'', PList [PDict [(''StackId'', PStr ''arn:web'')]])]),
      Inr (PDict [(''StackId'', PStr ''arn:web'')]), Inr PNone]
     ''web'' ''Resources: {}'' [(''Env'', ''prod'')] [''CAPABILITY_IAM'']
     = (Inr (PStr ''arn:web''), [])"
  using
    ensure_stack_probe [where cf = replay and n = "''web''" and body = "''Resources: {}''"
      and ps = "[(''Env'', ''prod'')]" and caps = "[''CAPABILITY_IAM'']"
      and s = "[Inl (ClientError ''An error occurred (ValidationError) when calling the DescribeStacks operation: Stack with id web does not exist''),
                Inr (PDict [(''StackId'', PStr ''arn:web'')]), Inr PNone]"
      and m = "''An error occurred (ValidationError) when calling the DescribeStacks operation: Stack with id web does not exist''"
      and t = "[Inr (PDict [(''StackId'', PStr ''arn:web'')]), Inr PNone]"]
    ensure_stack_probe [where cf = replay and n = "''web''" and body = "''Resources: {}''"
      and ps = "[(''Env'', ''prod'')]" and caps = "[''CAPABILITY_IAM'']"
      and s = "[Inl (BotoCoreError ''Error loading SSO Token: Token for web does not exist'')]"
      and e = "BotoCoreError ''Error loading SSO Token: Token for web does not exist''"
      and t = "[]"]
    ensure_stack_probe [where cf = replay and n = "''web''" and body = "''Resources: {}''"
      and ps = "[(''Env'', ''prod'')]" and caps = "[''CAPABILITY_IAM'']"
      and s = "[Inr (PDict [(''Stacks'', PList [PDict [(''StackId'', PStr ''arn:web'')]])]),
                Inr (PDict [(''StackId'', PStr ''arn:web'')]), Inr PNone]"
      and d = "PDict [(''Stacks'', PList [PDict [(''StackId'', PStr ''arn:web'')]])]"
      and t = "[Inr (PDict [(''StackId'', PStr ''arn:web'')]), Inr PNone]"]
  by (simp add: replay_def create_branch_def update_branch_def absent_error_def)

lemma update_branch_no_updates:
  assumes "cf t (UpdateStack n body pl caps) = (Inl e, u)" and "no_updates_error e"
  shows "update_branch cf t n body pl caps =
           (case cf u (DescribeStacks n) of
              (Inl e', v) \<Rightarrow> (Inl e', v)
            | (Inr desc, v) \<Rightarrow> (described_stack_id desc, v))"
  using assms by (simp add: update_branch_def no_updates_handler_def no_updates_error_def)



text \<open>The second \<open>describe_stacks\<close> is not guarded: what it raises is raised by the reconciler.\<close>

lemma update_branch_refetch_raises:
  assumes "cf t (UpdateStack n body pl caps) = (Inl e, u)" and "no_updates_error e"
    and "cf u (DescribeStacks n) = (Inl e', v)"
  shows "update_branch cf t n body pl caps = (Inl e', v)"
  using assms by (simp add: update_branch_no_updates)

lemma ensure_stack_present:
  assumes "cf s (DescribeStacks n) = (Inr d, t)"
  shows "ensure_stack cf s n body ps caps = update_branch cf t n body (param_list ps) caps"
  using assms by (simp add: ensure_stack_def probe_stack_cases)

subsection \<open>The update that changes nothing\<close>



section \<open>A provider that changes only through the reconciler\<close>

lemma str_contains_appendI: "str_contains x (p @ x @ q)"
  by (simp add: str_contains_sublist)

lemma stable_describe:
  assumes "stable_provider P view" and "P s (DescribeStacks n) = (r, s')"
  shows "view s' = view s"
    and "view s n = None \<Longrightarrow> \<exists>e. r = Inl e \<and> absent_error e"
    and "view s n = Some x \<Longrightarrow> \<exists>d. r = Inr d \<and> described_stack_id d = Inr (fst x)"
  using assms(1) [unfolded stable_provider_def, rule_format, where s = s and n = n, THEN conjunct1] assms(2)
  by (auto split: sum.splits)

lemma stable_create:
  assumes "stable_provider P view" and "P s (CreateStack n body pl caps) = (Inr resp, s')"
    and "subscript_key resp ''StackId'' = Inr sid"
  shows "view s' n = Some (sid, body, pl, caps)"
  using assms(1) [unfolded stable_provider_def, rule_format, where s = s and n = n and body = body and ps = pl and caps = caps, THEN conjunct2, THEN conjunct1] assms(2,3)
  by simp

lemma stable_wait_create:
  assumes "stable_provider P view" and "P s (WaitStackCreateComplete n) = (r, s')"
  shows "r = Inr w \<Longrightarrow> view s' = view s" and "r = Inl e \<Longrightarrow> \<not> is_ClientError e"
  using assms(1) [unfolded stable_provider_def, rule_format, where s = s and n = n, THEN conjunct2, THEN conjunct2, THEN conjunct1] assms(2)
  by auto

lemma stable_update:
  assumes "stable_provider P view" and "P s (UpdateStack n body pl caps) = (r, s')"
    and "view s n = Some x"
  shows "r = Inl e \<Longrightarrow> view s' = view s \<and> (no_updates_error e = (snd x = (body, pl, caps)))"
    and "r = Inr resp \<Longrightarrow> snd x \<noteq> (body, pl, caps) \<and> subscript_key resp ''StackId'' = Inr (fst x) \<and>
           view s' n = Some (fst x, body, pl, caps)"
  using assms(1) [unfolded stable_provider_def, rule_format, where s = s and n = n and body = body and ps = pl and caps = caps, THEN conjunct2, THEN conjunct2, THEN conjunct2, THEN conjunct1]
    assms(2,3)
  by auto

lemma stable_wait_update:
  assumes "stable_provider P view" and "P s (WaitStackUpdateComplete n) = (r, s')"
  shows "r = Inr w \<Longrightarrow> view s' = view s" and "r = Inl e \<Longrightarrow> \<not> is_ClientError e"
  using assms(1) [unfolded stable_provider_def, rule_format, where s = s and n = n, THEN conjunct2, THEN conjunct2, THEN conjunct2, THEN conjunct2] assms(2)
  by auto


lemma no_updates_run:
  assumes "cf s (DescribeStacks n) = (Inr d, t)"
    and "cf t (UpdateStack n body (param_list ps) caps) = (Inl e, u)"
    and "no_updates_error e"
    and "cf u (DescribeStacks n) = (Inr desc, v)"
  shows "ensure_stack cf s n body ps caps = (described_stack_id desc, v)"
    and "calls_of (ensure_stack (recording cf) (s, []) n body ps caps) =
           [DescribeStacks n, UpdateStack n body (param_list ps) caps, DescribeStacks n]"
proof -
  show "ensure_stack cf s n body ps caps = (described_stack_id desc, v)"
    using assms by (simp add: ensure_stack_present update_branch_no_updates)
  have rd: "recording cf (s, []) (DescribeStacks n) = (Inr d, (t, [DescribeStacks n]))"
    using assms(1) by (simp add: recording_apply)
  have ru: "recording cf (t, [DescribeStacks n]) (UpdateStack n body (param_list ps) caps) =
      (Inl e, (u, [DescribeStacks n, UpdateStack n body (param_list ps) caps]))"
    using assms(2) by (simp add: recording_apply)
  have rf: "recording cf (u, [DescribeStacks n, UpdateStack n body (param_list ps) caps]) (DescribeStacks n) =
      (Inr desc, (v, [DescribeStacks n, UpdateStack n body (param_list ps) caps, DescribeStacks n]))"
    using assms(4) by (simp add: recording_apply)
  show "calls_of (ensure_stack (recording cf) (s, []) n body ps caps) =
           [DescribeStacks n, UpdateStack n body (param_list ps) caps, DescribeStacks n]"
    using update_branch_no_updates [of "recording cf" "(t, [DescribeStacks n])" n body "param_list ps" caps
        e "(u, [DescribeStacks n, UpdateStack n body (param_list ps) caps])", OF ru assms(3)]
      ensure_stack_present [of "recording cf" "(s, [])" n d "(t, [DescribeStacks n])" body ps caps, OF rd]
    by (simp add: rf calls_of_def)
qed

lemma ensure_stack_records:
  assumes sp: "stable_provider P view"
    and run: "ensure_stack P s n body ps caps = (Inr sid, t)"
  shows "view t n = Some (sid, body, param_list ps, caps)"
proof -
  obtain r s1 where d: "P s (DescribeStacks n) = (r, s1)"
    by (cases "P s (DescribeStacks n)")
  note vd = stable_describe [OF sp d]
  show ?thesis
  proof (cases r)
    case (Inl e)
    with d run have cb: "create_branch P s1 n body (param_list ps) caps = (Inr sid, t)"
      by (auto simp add: ensure_stack_def probe_stack_cases split: if_splits)
    obtain rc s2 where c: "P s1 (CreateStack n body (param_list ps) caps) = (rc, s2)"
      by (cases "P s1 (CreateStack n body (param_list ps) caps)")
    obtain rw s3 where w: "P s2 (WaitStackCreateComplete n) = (rw, s3)"
      by (cases "P s2 (WaitStackCreateComplete n)")
    from cb c w obtain resp wv where o: "rc = Inr resp" "rw = Inr wv"
        "subscript_key resp ''StackId'' = Inr sid" "s3 = t"
      by (auto simp add: create_branch_def split: sum.splits)
    have "view s2 n = Some (sid, body, param_list ps, caps)"
      using stable_create [OF sp c [unfolded o(1)] o(3)] .
    moreover have "view s3 = view s2"
      using stable_wait_create(1) [OF sp w o(2)] .
    ultimately show ?thesis using o(4) by simp
  next
    case (Inr dd)
    with d run have ub: "update_branch P s1 n body (param_list ps) caps = (Inr sid, t)"
      by (simp add: ensure_stack_present)
    from Inr vd(2) obtain x where x: "view s n = Some x"
      by (cases "view s n") auto
    with vd(1) have x1: "view s1 n = Some x" by simp
    obtain ru s2 where u: "P s1 (UpdateStack n body (param_list ps) caps) = (ru, s2)"
      by (cases "P s1 (UpdateStack n body (param_list ps) caps)")
    note vu = stable_update [OF sp u x1]
    show ?thesis
    proof (cases ru)
      case (Inl e)
      note ve = vu(1) [OF Inl]
      from ub u Inl have nu: "no_updates_error e"
        by (auto simp add: update_branch_def no_updates_handler_def no_updates_error_def split: if_splits)
      obtain rf s3 where f: "P s2 (DescribeStacks n) = (rf, s3)"
        by (cases "P s2 (DescribeStacks n)")
      from ve x1 have x2: "view s2 n = Some x" by simp
      from stable_describe(3) [OF sp f x2] obtain d2 where
        d2: "rf = Inr d2" "described_stack_id d2 = Inr (fst x)" by blast
      from ub u Inl nu f d2 have "sid = fst x" "t = s3"
        by (simp_all add: update_branch_no_updates)
      moreover have "view s3 = view s2" using stable_describe(1) [OF sp f] .
      moreover from ve nu have "snd x = (body, param_list ps, caps)" by simp
      ultimately show ?thesis using x2 by (cases x) simp
    next
      case (Inr resp)
      note vr = vu(2) [OF Inr]
      obtain rw s3 where w: "P s2 (WaitStackUpdateComplete n) = (rw, s3)"
        by (cases "P s2 (WaitStackUpdateComplete n)")
      show ?thesis
      proof (cases rw)
        case (Inl e)
        with stable_wait_update(2) [OF sp w] have "\<not> is_ClientError e" by simp
        with ub u Inr w Inl show ?thesis
          by (simp add: update_branch_def)
      next
        case (Inr wv)
        from stable_wait_update(1) [OF sp w Inr] have "view s3 = view s2" .
        moreover from ub u \<open>ru = Inr resp\<close> w Inr vr have "sid = fst x" "t = s3"
          by (simp_all add: update_branch_def)
        ultimately show ?thesis using vr by simp
      qed
    qed
  qed
qed

lemma ensure_stack_settled:
  assumes sp: "stable_provider P view"
    and x: "view s n = Some (sid, body, param_list ps, caps)"
  shows "fst (ensure_stack P s n body ps caps) = Inr sid"
    and "calls_of (ensure_stack (recording P) (s, []) n body ps caps) =
           [DescribeStacks n, UpdateStack n body (param_list ps) caps, DescribeStacks n]"
proof -
  obtain r s1 where d: "P s (DescribeStacks n) = (r, s1)"
    by (cases "P s (DescribeStacks n)")
  from stable_describe(3) [OF sp d x] obtain d1 where d1: "r = Inr d1" by auto
  from stable_describe(1) [OF sp d] x have x1: "view s1 n = Some (sid, body, param_list ps, caps)"
    by simp
  obtain ru s2 where u: "P s1 (UpdateStack n body (param_list ps) caps) = (ru, s2)"
    by (cases "P s1 (UpdateStack n body (param_list ps) caps)")
  from stable_update(2) [OF sp u x1] obtain e where e: "ru = Inl e"
    by (cases ru) auto
  from stable_update(1) [OF sp u x1 e] have nu: "no_updates_error e" and v2: "view s2 = view s1"
    by simp_all
  obtain rf s3 where f: "P s2 (DescribeStacks n) = (rf, s3)"
    by (cases "P s2 (DescribeStacks n)")
  from v2 x1 have x2: "view s2 n = Some (sid, body, param_list ps, caps)" by simp
  from stable_describe(3) [OF sp f x2] obtain d2 where
    d2: "rf = Inr d2" "described_stack_id d2 = Inr sid" by auto
  note run = no_updates_run [OF d [unfolded d1] u [unfolded e] nu f [unfolded d2(1)]]
  show "fst (ensure_stack P s n body ps caps) = Inr sid"
    using run(1) d2(2) by simp
  show "calls_of (ensure_stack (recording P) (s, []) n body ps caps) =
           [DescribeStacks n, UpdateStack n body (param_list ps) caps, DescribeStacks n]"
    using run(2) .
qed

subsection \<open>Reconciling twice\<close>

text \<open>
  C3. \<open>ensure_stack\<close> is idempotent against a provider whose stacks change only through
  the reconciler's own calls (\<open>stable_provider\<close>): when a call with a stack name, template
  body, parameters and capabilities has returned a stack identifier, a second call with the
  same arguments, made in the state the first one left, returns the same identifier, and its
  calls are the probe, an \<open>update_stack\<close> that raises the no-updates error and the
  \<open>describe_stacks\<close> that fetches the identifier: it issues no \<open>create_stack\<close>.
\<close>

theorem ensure_stack_idempotent:
  assumes "stable_provider P view"
    and "ensure_stack P s n body ps caps = (Inr sid, t)"
  shows "fst (ensure_stack P t n body ps caps) = Inr sid \<and>
         calls_of (ensure_stack (recording P) (t, []) n body ps caps) =
           [DescribeStacks n, UpdateStack n body (param_list ps) caps, DescribeStacks n]"
  using ensure_stack_settled [OF assms(1) ensure_stack_records [OF assms]] by simp

lemma does_not_exist_text:
  "str_contains ''does not exist''
     (''An error occurred (ValidationError) when calling the DescribeStacks operation: Stack with id '' @ n @ '' does not exist'')"
  using str_contains_appendI [of "''does not exist''"
      "''An error occurred (ValidationError) when calling the DescribeStacks operation: Stack with id '' @ n @ '' ''" "[]"]
  by simp

lemma does_not_exist_suffix:
  "str_contains ''does not exist'' (n @ '' does not exist'')"
  using str_contains_appendI [of "''does not exist''" "n @ '' ''" "[]"] by simp

lemma no_updates_text:
  "str_contains ''No updates are to be performed''
     ''An error occurred (ValidationError) when calling the UpdateStack operation: No updates are to be performed.''"
  using str_contains_appendI [of "''No updates are to be performed''"
      "''An error occurred (ValidationError) when calling the UpdateStack operation: ''" "''.''"]
  by simp

lemma memory_stacks_stable: "stable_provider memory_stacks map_of"
  unfolding stable_provider_def
proof (intro allI conjI)
  fix s :: stacks and n body ps caps
  show "case memory_stacks s (DescribeStacks n) of
        (r, s') \<Rightarrow>
          map_of s' = map_of s \<and>
          (case map_of s n of
             None \<Rightarrow> (case r of Inl e \<Rightarrow> absent_error e | Inr d \<Rightarrow> False)
           | Some x \<Rightarrow> (case r of Inl e \<Rightarrow> False | Inr d \<Rightarrow> described_stack_id d = Inr (fst x)))"
    by (simp add: does_not_exist_suffix described_stack_id_def ebind_def index_position_def
        split: option.splits)
  show "case memory_stacks s (CreateStack n body ps caps) of
        (r, s') \<Rightarrow>
          (case r of
             Inl e \<Rightarrow> True
           | Inr resp \<Rightarrow>
               (case subscript_key resp ''StackId'' of
                  Inl e \<Rightarrow> True
                | Inr sid \<Rightarrow> map_of s' n = Some (sid, body, ps, caps)))"
    by (simp split: option.splits)
  show "case memory_stacks s (WaitStackCreateComplete n) of
        (r, s') \<Rightarrow> (case r of Inl e \<Rightarrow> \<not> is_ClientError e | Inr w \<Rightarrow> map_of s' = map_of s)"
    by simp
  show "case memory_stacks s (UpdateStack n body ps caps) of
        (r, s') \<Rightarrow>
          (case map_of s n of
             None \<Rightarrow> True
           | Some x \<Rightarrow>
               (case r of
                  Inl e \<Rightarrow> map_of s' = map_of s \<and> (no_updates_error e = (snd x = (body, ps, caps)))
                | Inr resp \<Rightarrow>
                    snd x \<noteq> (body, ps, caps) \<and> subscript_key resp ''StackId'' = Inr (fst x) \<and>
                    map_of s' n = Some (fst x, body, ps, caps)))"
    by (simp add: no_updates_text split: option.splits)
  show "case memory_stacks s (WaitStackUpdateComplete n) of
        (r, s') \<Rightarrow> (case r of Inl e \<Rightarrow> \<not> is_ClientError e | Inr w \<Rightarrow> map_of s' = map_of s)"
    by simp
qed

theorem ensure_stack_idempotent_witness:
  "stable_provider memory_stacks map_of \<and>
   ensure_stack memory_stacks [] ''web'' ''Resources: {}'' [(''Env'', ''prod'')] [''CAPABILITY_IAM'']
     = (Inr (stack_arn ''web''),
        [(''web'', stack_arn ''web'', ''Resources: {}'', param_list [(''Env'', ''prod'')], [''CAPABILITY_IAM''])]) \<and>
   fst (ensure_stack memory_stacks
          [(''web'', stack_arn ''web'', ''Resources: {}'', param_list [(''Env'', ''prod'')], [''CAPABILITY_IAM''])]
          ''web'' ''Resources: {}'' [(''Env'', ''prod'')] [''CAPABILITY_IAM''])
     = Inr (stack_arn ''web'') \<and>
   calls_of (ensure_stack (recording memory_stacks)
          ([(''web'', stack_arn ''web'', ''Resources: {}'', param_list [(''Env'', ''prod'')], [''CAPABILITY_IAM''])], [])
          ''web'' ''Resources: {}'' [(''Env'', ''prod'')] [''CAPABILITY_IAM''])
     = [DescribeStacks ''web'',
        UpdateStack ''web'' ''Resources: {}'' (param_list [(''Env'', ''prod'')]) [''CAPABILITY_IAM''],
        DescribeStacks ''web'']"
proof -
  have first: "ensure_stack memory_stacks [] ''web'' ''Resources: {}'' [(''Env'', ''prod'')] [''CAPABILITY_IAM'']
     = (Inr (stack_arn ''web''),
        [(''web'', stack_arn ''web'', ''Resources: {}'', param_list [(''Env'', ''prod'')], [''CAPABILITY_IAM''])])"
    by (simp add: ensure_stack_def probe_stack_cases does_not_exist_text create_branch_def)
  show ?thesis
    using memory_stacks_stable first ensure_stack_idempotent [OF memory_stacks_stable first]
    by simp
qed

section \<open>The usage ranking\<close>

lemma sort_reverse_descending: "sorted (rev (map f (sort_reverse f xs)))"
  by (simp add: sort_reverse_def rev_map)

lemma sort_reverse_stable:
  "filter (\<lambda>x. f x = k) (sort_reverse f xs) = filter (\<lambda>x. f x = k) xs"
  by (simp add: sort_reverse_def rev_filter [symmetric] sort_key_stable)

lemma sort_reverse_same_rows:
  "set (sort_reverse f xs) = set xs" "length (sort_reverse f xs) = length xs"
  by (simp_all add: sort_reverse_def)

lemma slice_to_zero: "slice_to 0 xs = []"
  by (simp add: slice_to_def)

lemma slice_to_nonnegative: "0 \<le> n \<Longrightarrow> slice_to n xs = take (nat n) xs"
  by (simp add: slice_to_def)

lemma slice_to_all: "int (length xs) \<le> n \<Longrightarrow> slice_to n xs = xs"
  by (simp add: slice_to_def)

lemma slice_to_negative: "n < 0 \<Longrightarrow> slice_to n xs = take (length xs - nat (- n)) xs"
proof -
  assume "n < 0"
  then have "nat (int (length xs) + n) = length xs - nat (- n)" by arith
  with \<open>n < 0\<close> show ?thesis by (simp add: slice_to_def)
qed

lemma slice_to_negative_nonempty: "n < 0 \<Longrightarrow> nat (- n) < length xs \<Longrightarrow> slice_to n xs \<noteq> []"
  by (auto simp add: slice_to_def)

lemma get_top_usage_rows:
  assumes "ce s (GetCostAndUsage
                  [(''TimePeriod'', month_window today),
                   (''Granularity'', PStr ''MONTHLY''),
                   (''Metrics'', PList [PStr ''UsageQuantity'']),
                   (''GroupBy'', PList [PDict [(''Type'', PStr ''DIMENSION''), (''Key'', PStr ''SERVICE'')]])])
           = (Inr (PDict [(''ResultsByTime'', PList [PDict [(''Groups'', PList gs)]])]), t)"
    and "emap (usage_row to_float) gs = Inr rows"
  shows "get_top_usage to_float ce s today top_n =
           (Inr (slice_to top_n (sort_reverse (\<lambda>x. fst (snd x)) rows)), t)"
  using assms by (simp add: get_top_usage_def ebind_def dict_get_def index_position_def)

subsection \<open>The usage ranking below zero\<close>

text \<open>
  C4. The rows of \<open>get_top_usage\<close> are in descending order of amount, rows of equal
  amount in the provider's order (\<open>sort_reverse_descending\<close>, \<open>sort_reverse_stable\<close>);
  \<open>top_n = 0\<close> gives no row and a \<open>top_n\<close> of at least the number of groups gives them
  all (\<open>slice_to_zero\<close>, \<open>slice_to_all\<close>). A negative \<open>top_n\<close> does not give the empty
  sequence: the slice \<open>rows[:top_n]\<close> then drops rows from the end only. For the groups
  EC2 5.0, S3 12.0 and RDS 1.0 and \<open>top_n = -1\<close> the result is the two rows S3 and EC2.
\<close>

theorem get_top_usage_negative_top_n:
  "get_top_usage (table_float [(''5.0'', 5), (''12.0'', 12), (''1.0'', 1)]) replay
     [Inr (PDict [(''ResultsByTime'',
             PList [PDict [(''Groups'',
               PList [usage_group ''EC2'' ''5.0'' ''Hrs'', usage_group ''S3'' ''12.0'' ''GB'',
                      usage_group ''RDS'' ''1.0'' ''Hrs''])]])])]
     \<lparr>year = 2026, month = 11, day = 3\<rparr> (- 1)
   = (Inr [(PStr ''S3'', 12, PStr ''GB''), (PStr ''EC2'', 5, PStr ''Hrs'')], [])"
  by (simp add: get_top_usage_def replay_def ebind_def dict_get_def index_position_def
      usage_row_def usage_group_def table_float_def sort_reverse_def slice_to_def)

lemma get_top_usage_top_two:
  "get_top_usage (table_float [(''5.0'', 5), (''12.0'', 12), (''1.0'', 1)]) replay
     [Inr (PDict [(''ResultsByTime'',
             PList [PDict [(''Groups'',
               PList [usage_group ''EC2'' ''5.0'' ''Hrs'', usage_group ''S3'' ''12.0'' ''GB'',
                      usage_group ''RDS'' ''1.0'' ''Hrs''])]])])]
     \<lparr>year = 2026, month = 11, day = 3\<rparr> 2
   = (Inr [(PStr ''S3'', 12, PStr ''GB''), (PStr ''EC2'', 5, PStr ''Hrs'')], [])"
  by (simp add: get_top_usage_def replay_def ebind_def dict_get_def index_position_def
      usage_row_def usage_group_def table_float_def sort_reverse_def slice_to_def)

section \<open>Deallocating compute instances\<close>

lemma deallocate_ec2_instances_recording:
  "calls_of (deallocate_ec2_instances (recording ec2) (s, []) ids terminate) =
     [if terminate then TerminateInstances ids else StopInstances ids]"
  by (simp add: deallocate_ec2_instances_def recording_apply calls_of_def split: prod.splits sum.splits)

lemma deallocate_ec2_instances_raises:
  "fst (ec2 s (if terminate then TerminateInstances ids else StopInstances ids)) = Inl e \<Longrightarrow>
   fst (deallocate_ec2_instances ec2 s ids terminate) = Inl e"
  by (auto simp add: deallocate_ec2_instances_def split: prod.splits sum.splits)

text \<open>
  With an empty identifier list the provider is called all the same. A provider that
  rejects the empty list makes the operation fail with the provider's own error, after the
  call; one that accepts it makes the operation return the empty list.
\<close>

theorem deallocate_empty_ids_calls_provider:
  "calls_of (deallocate_ec2_instances (recording replay)
       ([Inl (ClientError ''An error occurred (MissingParameter) when calling the TerminateInstances operation: The request must contain the parameter InstanceId'')], [])
       [] True) = [TerminateInstances []] \<and>
   fst (deallocate_ec2_instances replay
       [Inl (ClientError ''An error occurred (MissingParameter) when calling the TerminateInstances operation: The request must contain the parameter InstanceId'')]
       [] True)
     = Inl (ClientError ''An error occurred (MissingParameter) when calling the TerminateInstances operation: The request must contain the parameter InstanceId'') \<and>
   calls_of (deallocate_ec2_instances (recording replay)
       ([Inr (PDict [(''StoppingInstances'', PList [])])], []) [] False) = [StopInstances []] \<and>
   fst (deallocate_ec2_instances replay [Inr (PDict [(''StoppingInstances'', PList [])])] [] False) = Inr []"
  by (simp add: deallocate_ec2_instances_def recording_apply calls_of_def replay_def ebind_def dict_get_def)

text \<open>
  C5, as the code has it. \<open>deallocate_ec2_instances\<close> does not inspect the identifier
  list: with an empty list it issues exactly one provider call, \<open>terminate_instances\<close>
  when the terminate flag is set and \<open>stop_instances\<close> otherwise, with the empty list,
  and an exception that the provider raises for it is the result, unchanged.
\<close>

theorem deallocate_empty_ids_passes_through:
  "calls_of (deallocate_ec2_instances (recording ec2) (s, []) [] terminate) =
     [if terminate then TerminateInstances [] else StopInstances []] \<and>
   (fst (ec2 s (if terminate then TerminateInstances [] else StopInstances [])) = Inl e \<longrightarrow>
      fst (deallocate_ec2_instances ec2 s [] terminate) = Inl e)"
  using deallocate_ec2_instances_recording [of ec2 s "[]" terminate]
    deallocate_ec2_instances_raises [of ec2 s terminate "[]" e]
  by simp

theorem deallocate_empty_ids_passes_through_witness:
  "fst (replay [Inl (ClientError ''MissingParameter'')] (if True then TerminateInstances [] else StopInstances []))
     = Inl (ClientError ''MissingParameter'') \<and>
   calls_of (deallocate_ec2_instances (recording replay) ([Inl (ClientError ''MissingParameter'')], []) [] True)
     = [TerminateInstances []] \<and>
   fst (deallocate_ec2_instances replay [Inl (ClientError ''MissingParameter'')] [] True)
     = Inl (ClientError ''MissingParameter'')"
  using deallocate_empty_ids_passes_through [of replay "[Inl (ClientError ''MissingParameter'')]" True
      "ClientError ''MissingParameter''"]
  by (simp add: replay_def)

text \<open>
  The command \<open>deallocate ec2\<close> drops the empty pieces of \<open>--instance-ids\<close> and calls
  the provider with what is left, here with nothing.
\<close>

lemma deallocate_ec2_only_commas:
  "deallocate_ec2 (recording replay) ([Inl (ClientError ''MissingParameter'')], []) '' , '' False =
     (Inr (), ([], [TerminateInstances []]), [PrintError ''MissingParameter''])"
  by (simp add: deallocate_ec2_def deallocate_ec2_instances_def recording_apply replay_def strip_def
      is_space_def)

section \<open>The month's cost\<close>

text \<open>
  C6. When the cost query answers with a response that has no result periods (the key
  \<open>ResultsByTime\<close> is missing or holds the empty list), \<open>get_month_cost\<close> returns the
  pair \<open>("0.0", "USD")\<close> and raises nothing.
\<close>

theorem get_month_cost_no_periods:
  "ce s (GetCostAndUsage
           [(''TimePeriod'', month_window today),
            (''Granularity'', PStr ''MONTHLY''),
            (''Metrics'', PList [PStr ''UnblendedCost''])]) = (Inr (PDict kvs), t) \<and>
   map_of kvs ''ResultsByTime'' \<in> {None, Some (PList [])} \<longrightarrow>
     get_month_cost ce s today = (Inr (PStr ''0.0'', PStr ''USD''), t)"
  by (auto simp add: get_month_cost_def ebind_def dict_get_def)

theorem get_month_cost_no_periods_witness:
  "replay [Inr (PDict [(''ResultsByTime'', PList []), (''DimensionValueAttributes'', PList [])])]
     (GetCostAndUsage
           [(''TimePeriod'', month_window \<lparr>year = 2026, month = 11, day = 3\<rparr>),
            (''Granularity'', PStr ''MONTHLY''),
            (''Metrics'', PList [PStr ''UnblendedCost''])])
     = (Inr (PDict [(''ResultsByTime'', PList []), (''DimensionValueAttributes'', PList [])]), []) \<and>
   get_month_cost replay
     [Inr (PDict [(''ResultsByTime'', PList []), (''DimensionValueAttributes'', PList [])])]
     \<lparr>year = 2026, month = 11, day = 3\<rparr> = (Inr (PStr ''0.0'', PStr ''USD''), [])"
  using get_month_cost_no_periods [of replay
      "[Inr (PDict [(''ResultsByTime'', PList []), (''DimensionValueAttributes'', PList [])])]"
      "\<lparr>year = 2026, month = 11, day = 3\<rparr>"
      "[(''ResultsByTime'', PList []), (''DimensionValueAttributes'', PList [])]" "[]"]
  by (simp add: replay_def)

lemma month_window_example:
  "month_window \<lparr>year = 2026, month = 11, day = 3\<rparr> =
     PDict [(''Start'', PStr ''2026-11-01''), (''End'', PStr ''2026-11-03'')]"
  by code_simp

section \<open>Listing the storage buckets\<close>

lemma bucket_records_append:
  "bucket_records s3 s (xs @ ys) =
     (case bucket_records s3 s xs of
        (Inl e, t) \<Rightarrow> (Inl e, t)
      | (Inr rows, t) \<Rightarrow>
          (case bucket_records s3 t ys of
             (Inl e, u) \<Rightarrow> (Inl e, u)
           | (Inr rest, u) \<Rightarrow> (Inr (rows @ rest), u)))"
proof (induction xs arbitrary: s)
  case Nil
  show ?case by (simp split: prod.splits sum.splits)
next
  case (Cons b bs)
  show ?case
    by (simp add: Cons.IH split: prod.splits sum.splits)
qed

lemma bucket_region_sdk_error:
  assumes "s3 s (GetBucketLocation name) = (Inl e, t)" and "is_sdk_error e"
  shows "bucket_region s3 s name = (Inr (PStr ''unknown''), t)"
  using assms by (simp add: bucket_region_def)

lemma bucket_region_other_error:
  assumes "s3 s (GetBucketLocation name) = (Inl e, t)" and "\<not> is_sdk_error e"
  shows "bucket_region s3 s name = (Inl e, t)"
  using assms by (simp add: bucket_region_def)

lemma bucket_region_default:
  assumes "s3 s (GetBucketLocation name) = (Inr (PDict kvs), t)"
    and "map_of kvs ''LocationConstraint'' \<in> {None, Some PNone, Some (PStr [])}"
  shows "bucket_region s3 s name = (Inr (PStr ''us-east-1''), t)"
  using assms by (auto simp add: bucket_region_def dict_get_def py_or_def)

lemma bucket_region_named:
  assumes "s3 s (GetBucketLocation name) = (Inr (PDict kvs), t)"
    and "map_of kvs ''LocationConstraint'' = Some (PStr r)" and "r \<noteq> []"
  shows "bucket_region s3 s name = (Inr (PStr r), t)"
  using assms by (simp add: bucket_region_def dict_get_def py_or_def)

lemma bucket_records_step:
  assumes "dict_get b ''Name'' PNone = Inr name"
    and "dict_get b ''CreationDate'' PNone = Inr created"
    and "bucket_region s3 u name = (Inr loc, v)"
  shows "bucket_records s3 u (b # post) =
           (case bucket_records s3 v post of
              (Inl e, w) \<Rightarrow> (Inl e, w)
            | (Inr rest, w) \<Rightarrow>
                (Inr (PDict [(''Name'', name), (''CreationDate'', created), (''Region'', loc)] # rest), w))"
  using assms by simp

lemma list_s3_buckets_at:
  assumes "s3 s ListBuckets = (Inr resp, t)"
    and "dict_get resp ''Buckets'' (PList []) = Inr (PList (pre @ b # post))"
    and "bucket_records s3 t pre = (Inr rows, u)"
    and "dict_get b ''Name'' PNone = Inr name"
    and "dict_get b ''CreationDate'' PNone = Inr created"
    and "bucket_region s3 u name = (Inr loc, v)"
  shows "list_s3_buckets s3 s =
           (case bucket_records s3 v post of
              (Inl e, w) \<Rightarrow> (Inl e, w)
            | (Inr rest, w) \<Rightarrow>
                (Inr (rows @ PDict [(''Name'', name), (''CreationDate'', created), (''Region'', loc)] # rest),
                 w))"
proof -
  have "list_s3_buckets s3 s = bucket_records s3 t (pre @ b # post)"
    using assms(1,2) by (simp add: list_s3_buckets_def ebind_def)
  also have "\<dots> = (case bucket_records s3 u (b # post) of
                      (Inl e, w) \<Rightarrow> (Inl e, w)
                    | (Inr rest, w) \<Rightarrow> (Inr (rows @ rest), w))"
    using assms(3) by (simp add: bucket_records_append)
  also have "\<dots> = (case bucket_records s3 v post of
              (Inl e, w) \<Rightarrow> (Inl e, w)
            | (Inr rest, w) \<Rightarrow>
                (Inr (rows @ PDict [(''Name'', name), (''CreationDate'', created), (''Region'', loc)] # rest),
                 w))"
    by (simp only: bucket_records_step [OF assms(4,5,6)]) (simp split: prod.splits sum.splits)
  finally show ?thesis .
qed

text \<open>
  C7. Take any bucket \<open>b\<close> of the provider's bucket list, the buckets \<open>pre\<close> before it
  listed with the records \<open>rows\<close>. If the region lookup for \<open>b\<close> raises an SDK error
  (\<open>ClientError\<close> or \<open>BotoCoreError\<close>), nothing is raised for it: the listing goes on
  with the buckets \<open>post\<close> after \<open>b\<close>, from the state the failed lookup left, and when
  it completes its result holds the record of \<open>b\<close> with the region \<open>unknown\<close>, between
  the records of \<open>pre\<close> and those of \<open>post\<close>.
\<close>

theorem list_s3_buckets_lookup_failure:
  assumes "s3 s ListBuckets = (Inr resp, t)"
    and "dict_get resp ''Buckets'' (PList []) = Inr (PList (pre @ b # post))"
    and "bucket_records s3 t pre = (Inr rows, u)"
    and "dict_get b ''Name'' PNone = Inr name"
    and "dict_get b ''CreationDate'' PNone = Inr created"
    and "s3 u (GetBucketLocation name) = (Inl e, v)"
    and "is_sdk_error e"
  shows "list_s3_buckets s3 s =
           (case bucket_records s3 v post of
              (Inl e', w) \<Rightarrow> (Inl e', w)
            | (Inr rest, w) \<Rightarrow>
                (Inr (rows @
                      PDict [(''Name'', name), (''CreationDate'', created), (''Region'', PStr ''unknown'')]
                      # rest), w))"
  using list_s3_buckets_at [OF assms(1,2,3,4,5) bucket_region_sdk_error [of s3 u name e v, OF assms(6,7)]] .

text \<open>
  C10. In the same setting, if the region lookup for \<open>b\<close> answers with a location
  constraint that is missing, null or the empty string, the record of \<open>b\<close> has the region
  \<open>us-east-1\<close>, not \<open>unknown\<close> and not an empty value.
\<close>

theorem list_s3_buckets_default_region:
  assumes "s3 s ListBuckets = (Inr resp, t)"
    and "dict_get resp ''Buckets'' (PList []) = Inr (PList (pre @ b # post))"
    and "bucket_records s3 t pre = (Inr rows, u)"
    and "dict_get b ''Name'' PNone = Inr name"
    and "dict_get b ''CreationDate'' PNone = Inr created"
    and "s3 u (GetBucketLocation name) = (Inr (PDict loc), v)"
    and "map_of loc ''LocationConstraint'' \<in> {None, Some PNone, Some (PStr [])}"
  shows "list_s3_buckets s3 s =
           (case bucket_records s3 v post of
              (Inl e', w) \<Rightarrow> (Inl e', w)
            | (Inr rest, w) \<Rightarrow>
                (Inr (rows @
                      PDict [(''Name'', name), (''CreationDate'', created), (''Region'', PStr ''us-east-1'')]
                      # rest), w))"
  using list_s3_buckets_at [OF assms(1,2,3,4,5) bucket_region_default [of s3 u name loc v, OF assms(6,7)]] .


theorem list_s3_buckets_lookup_failure_witness:
  "is_sdk_error (ClientError ''An error occurred (AccessDenied) when calling the GetBucketLocation operation: Access Denied'') \<and>
   list_s3_buckets replay
     [Inr (PDict [(''Buckets'', PList [bucket_entry ''assets'' ''2024-01-05'', bucket_entry ''logs'' ''2024-02-10'',
                                       bucket_entry ''backup'' ''2024-03-15''])]),
      Inr (PDict [(''LocationConstraint'', PStr ''eu-west-1'')]),
      Inl (ClientError ''An error occurred (AccessDenied) when calling the GetBucketLocation operation: Access Denied''),
      Inr (PDict [(''LocationConstraint'', PNone)])]
   = (Inr [bucket_row ''assets'' ''2024-01-05'' ''eu-west-1'', bucket_row ''logs'' ''2024-02-10'' ''unknown'',
             bucket_row ''backup'' ''2024-03-15'' ''us-east-1''], [])"
  using list_s3_buckets_lookup_failure [of replay
      "[Inr (PDict [(''Buckets'', PList [bucket_entry ''assets'' ''2024-01-05'', bucket_entry ''logs'' ''2024-02-10'',
                                       bucket_entry ''backup'' ''2024-03-15''])]),
      Inr (PDict [(''LocationConstraint'', PStr ''eu-west-1'')]),
      Inl (ClientError ''An error occurred (AccessDenied) when calling the GetBucketLocation operation: Access Denied''),
      Inr (PDict [(''LocationConstraint'', PNone)])]"
      "PDict [(''Buckets'', PList [bucket_entry ''assets'' ''2024-01-05'', bucket_entry ''logs'' ''2024-02-10'',
                                       bucket_entry ''backup'' ''2024-03-15''])]"
      "[Inr (PDict [(''LocationConstraint'', PStr ''eu-west-1'')]),
        Inl (ClientError ''An error occurred (AccessDenied) when calling the GetBucketLocation operation: Access Denied''),
        Inr (PDict [(''LocationConstraint'', PNone)])]"
      "[bucket_entry ''assets'' ''2024-01-05'']" "bucket_entry ''logs'' ''2024-02-10''"
      "[bucket_entry ''backup'' ''2024-03-15'']"
      "[bucket_row ''assets'' ''2024-01-05'' ''eu-west-1'']"
      "[Inl (ClientError ''An error occurred (AccessDenied) when calling the GetBucketLocation operation: Access Denied''),
        Inr (PDict [(''LocationConstraint'', PNone)])]"
      "PStr ''logs''" "PDatetime ''2024-02-10''"
      "ClientError ''An error occurred (AccessDenied) when calling the GetBucketLocation operation: Access Denied''"
      "[Inr (PDict [(''LocationConstraint'', PNone)])]"]
  by (simp add: replay_def bucket_entry_def bucket_row_def dict_get_def bucket_region_def py_or_def)

theorem list_s3_buckets_default_region_witness:
  "map_of [(''LocationConstraint'', PNone)] ''LocationConstraint'' \<in> {None, Some PNone, Some (PStr [])} \<and>
   list_s3_buckets replay
     [Inr (PDict [(''Buckets'', PList [bucket_entry ''assets'' ''2024-01-05'', bucket_entry ''logs'' ''2024-02-10'',
                                       bucket_entry ''backup'' ''2024-03-15''])]),
      Inr (PDict [(''LocationConstraint'', PStr ''eu-west-1'')]),
      Inl (ClientError ''An error occurred (AccessDenied) when calling the GetBucketLocation operation: Access Denied''),
      Inr (PDict [(''LocationConstraint'', PNone)])]
   = (Inr [bucket_row ''assets'' ''2024-01-05'' ''eu-west-1'', bucket_row ''logs'' ''2024-02-10'' ''unknown'',
             bucket_row ''backup'' ''2024-03-15'' ''us-east-1''], [])"
  using list_s3_buckets_default_region [of replay
      "[Inr (PDict [(''Buckets'', PList [bucket_entry ''assets'' ''2024-01-05'', bucket_entry ''logs'' ''2024-02-10'',
                                       bucket_entry ''backup'' ''2024-03-15''])]),
      Inr (PDict [(''LocationConstraint'', PStr ''eu-west-1'')]),
      Inl (ClientError ''An error occurred (AccessDenied) when calling the GetBucketLocation operation: Access Denied''),
      Inr (PDict [(''LocationConstraint'', PNone)])]"
      "PDict [(''Buckets'', PList [bucket_entry ''assets'' ''2024-01-05'', bucket_entry ''logs'' ''2024-02-10'',
                                       bucket_entry ''backup'' ''2024-03-15''])]"
      "[Inr (PDict [(''LocationConstraint'', PStr ''eu-west-1'')]),
        Inl (ClientError ''An error occurred (AccessDenied) when calling the GetBucketLocation operation: Access Denied''),
        Inr (PDict [(''LocationConstraint'', PNone)])]"
      "[bucket_entry ''assets'' ''2024-01-05'', bucket_entry ''logs'' ''2024-02-10'']"
      "bucket_entry ''backup'' ''2024-03-15''"
      "[]"
      "[bucket_row ''assets'' ''2024-01-05'' ''eu-west-1'', bucket_row ''logs'' ''2024-02-10'' ''unknown'']"
      "[Inr (PDict [(''LocationConstraint'', PNone)])]"
      "PStr ''backup''" "PDatetime ''2024-03-15''"
      "[(''LocationConstraint'', PNone)]"
      "[]"]
  by (simp add: replay_def bucket_entry_def bucket_row_def dict_get_def bucket_region_def py_or_def)

section \<open>Allocating compute instances\<close>

lemma run_instances_params_keys:
  "map fst (run_instances_params ami ty key groups subnet count tag) =
     [''ImageId'', ''InstanceType'', ''MinCount'', ''MaxCount'']
     @ (if given key then [''KeyName''] else [])
     @ (if given groups then [''SecurityGroupIds''] else [])
     @ (if given subnet then [''SubnetId''] else [])
     @ (if given tag then [''TagSpecifications''] else [])"
  by (simp add: run_instances_params_def given_def split: option.splits)

lemma map_of_optional_update:
  "map_of (case x of None \<Rightarrow> al | Some v \<Rightarrow> if v \<noteq> [] then AList.update k (f v) al else al) k' =
     (if given x \<and> k' = k then Some (f (the x)) else map_of al k')"
  by (cases x) (simp_all add: given_def update_conv')

lemma run_instances_params_required:
  "map_of (run_instances_params ami ty key groups subnet count tag) ''ImageId'' = Some (PStr ami)"
  "map_of (run_instances_params ami ty key groups subnet count tag) ''InstanceType'' = Some (PStr ty)"
  "map_of (run_instances_params ami ty key groups subnet count tag) ''MinCount'' = Some (PInt count)"
  "map_of (run_instances_params ami ty key groups subnet count tag) ''MaxCount'' = Some (PInt count)"
  by (simp_all add: run_instances_params_def Let_def map_of_optional_update)

lemma run_instances_params_optional:
  "map_of (run_instances_params ami ty key groups subnet count tag) ''KeyName'' =
     (if given key then Some (PStr (the key)) else None)"
  "map_of (run_instances_params ami ty key groups subnet count tag) ''SecurityGroupIds'' =
     (if given groups then Some (PList (map PStr (the groups))) else None)"
  "map_of (run_instances_params ami ty key groups subnet count tag) ''SubnetId'' =
     (if given subnet then Some (PStr (the subnet)) else None)"
  "map_of (run_instances_params ami ty key groups subnet count tag) ''TagSpecifications'' =
     (if given tag then
        Some (PList [PDict [(''ResourceType'', PStr ''instance''),
                            (''Tags'', PList [PDict [(''Key'', PStr ''Name''), (''Value'', PStr (the tag))]])]])
      else None)"
  by (simp_all add: run_instances_params_def Let_def map_of_optional_update)

lemma allocate_ec2_instance_recording:
  "calls_of (allocate_ec2_instance (recording ec2) (s, []) ami ty key groups subnet count tag) =
     [RunInstances (run_instances_params ami ty key groups subnet count tag)]"
  by (simp add: allocate_ec2_instance_def recording_apply calls_of_def split: prod.splits sum.splits)

text \<open>
  C8. \<open>allocate_ec2_instance\<close> sends exactly one \<open>run_instances\<close> request. The request
  always holds the image, the instance type and the count, the count both as \<open>MinCount\<close>
  and as \<open>MaxCount\<close>. For each optional argument that is not provided (key name, security
  group identifiers, subnet identifier, name tag) the request has no entry under the
  argument's key at all.
\<close>

theorem allocate_ec2_request_fields:
  fixes ec2 :: "'s client"
  shows
  "calls_of (allocate_ec2_instance (recording ec2) (s, []) ami ty key groups subnet count tag) =
     [RunInstances (run_instances_params ami ty key groups subnet count tag)] \<and>
   map_of (run_instances_params ami ty key groups subnet count tag) ''ImageId'' = Some (PStr ami) \<and>
   map_of (run_instances_params ami ty key groups subnet count tag) ''InstanceType'' = Some (PStr ty) \<and>
   map_of (run_instances_params ami ty key groups subnet count tag) ''MinCount'' = Some (PInt count) \<and>
   map_of (run_instances_params ami ty key groups subnet count tag) ''MaxCount'' = Some (PInt count) \<and>
   (key = None \<longrightarrow>
      ''KeyName'' \<notin> fst ` set (run_instances_params ami ty key groups subnet count tag)) \<and>
   (groups = None \<longrightarrow>
      ''SecurityGroupIds'' \<notin> fst ` set (run_instances_params ami ty key groups subnet count tag)) \<and>
   (subnet = None \<longrightarrow>
      ''SubnetId'' \<notin> fst ` set (run_instances_params ami ty key groups subnet count tag)) \<and>
   (tag = None \<longrightarrow>
      ''TagSpecifications'' \<notin> fst ` set (run_instances_params ami ty key groups subnet count tag))"
proof -
  have keys: "fst ` set (run_instances_params ami ty key groups subnet count tag) =
      set (map fst (run_instances_params ami ty key groups subnet count tag))"
    by simp
  show ?thesis
    unfolding keys run_instances_params_keys
    by (simp add: allocate_ec2_instance_recording run_instances_params_required given_def)
qed

theorem allocate_ec2_request_fields_witness:
  "calls_of (allocate_ec2_instance (recording replay)
       ([Inr (PDict [(''Instances'', PList [PDict [(''InstanceId'', PStr ''i-0a1'')],
                                            PDict [(''InstanceId'', PStr ''i-0a2'')]])])], [])
       ''ami-123'' ''t3.micro'' None (Some [''sg-1'']) None 2 (Some ''web''))
   = [RunInstances
        [(''ImageId'', PStr ''ami-123''), (''InstanceType'', PStr ''t3.micro''),
         (''MinCount'', PInt 2), (''MaxCount'', PInt 2),
         (''SecurityGroupIds'', PList [PStr ''sg-1'']),
         (''TagSpecifications'',
          PList [PDict [(''ResourceType'', PStr ''instance''),
                        (''Tags'', PList [PDict [(''Key'', PStr ''Name''), (''Value'', PStr ''web'')]])]])]] \<and>
   ''KeyName'' \<notin> fst ` set (run_instances_params ''ami-123'' ''t3.micro'' None (Some [''sg-1'']) None 2 (Some ''web'')) \<and>
   ''SubnetId'' \<notin> fst ` set (run_instances_params ''ami-123'' ''t3.micro'' None (Some [''sg-1'']) None 2 (Some ''web''))"
  using allocate_ec2_request_fields [of replay
      "[Inr (PDict [(''Instances'', PList [PDict [(''InstanceId'', PStr ''i-0a1'')],
                                            PDict [(''InstanceId'', PStr ''i-0a2'')]])])]"
      "''ami-123''" "''t3.micro''" None "Some [''sg-1'']" None 2 "Some ''web''"]
  by (simp add: run_instances_params_def)

lemma allocate_ec2_instance_example:
  "allocate_ec2_instance replay
       [Inr (PDict [(''Instances'', PList [PDict [(''InstanceId'', PStr ''i-0a1'')],
                                            PDict [(''InstanceId'', PStr ''i-0a2'')]])])]
       ''ami-123'' ''t3.micro'' None (Some [''sg-1'']) None 2 (Some ''web'')
   = (Inr [PStr ''i-0a1'', PStr ''i-0a2''], [])"
  by (simp add: allocate_ec2_instance_def replay_def ebind_def dict_get_def)

text \<open>The command \<open>deallocate ec2\<close> on white space beyond ASCII, and \<open>join\<close> on its items.\<close>

lemma deallocate_ec2_non_breaking_space:
  "deallocate_ec2 (recording replay) ([Inl (ClientError ''MissingParameter'')], [])
     [CHR 0xA0, CHR '','', CHR 0x85] False =
     (Inr (), ([], [TerminateInstances []]), [PrintError ''MissingParameter''])"
  by (simp add: deallocate_ec2_def deallocate_ec2_instances_def recording_apply replay_def strip_def
      is_space_def)

lemma join_strs_joined: "join_strs '', '' [PStr ''i-1'', PStr ''i-2''] = Inr ''i-1, i-2''"
  by (simp add: join_strs_def)

lemma join_strs_item_position:
  "join_strs '', '' [PStr ''i-1'', PNone] =
     Inl (TypeError ''sequence item 1: expected str instance, NoneType found'')"
  by code_simp

section \<open>Listing the resources of all kinds\<close>


























end
